theory Spec2Isabelle
  imports Complex_Main "HOL-Library.Word" "HOL-Library.Log_Nat"
begin

section \<open>MatrixBench.cpp: the matrix micro-benchmarks\<close>

text \<open>
  The file under study declares an abstract benchmark class \<open>MatrixBench\<close>, whose
  \<open>onDraw\<close> runs the virtual \<open>performTest\<close> in a counted loop, and five concrete
  benchmarks. This theory embeds the loop, the \<open>always_do\<close> guard with its global
  counter, the constructor of \<open>ScaleMatrixBench\<close>, the three hand-written 3x3
  concatenations and the registration of the five factories.
\<close>

subsection \<open>The base class and its loop\<close>

text \<open>
  \<open>MatrixBench\<close> holds the benchmark's name; its constructor formats it as
  \<open>matrix_<name>\<close>. Subclasses extend the record with their members.
\<close>

record MatrixBench =
  fName :: string

definition MatrixBench_ctor :: "string \<Rightarrow> 'z MatrixBench_scheme \<Rightarrow> 'z MatrixBench_scheme" where
  "MatrixBench_ctor name s = s\<lparr>fName := ''matrix_'' @ name\<rparr>"

definition onGetName :: "'z MatrixBench_scheme \<Rightarrow> string" where
  "onGetName s = fName s"

text \<open>
  \<open>enum { N = 100000 }\<close> and the loop of \<open>onDraw\<close>. The counter \<open>i\<close> is a C++ \<open>int\<close>, a
  32-bit word compared as a signed number; the canvas argument is not used. The virtual
  \<open>performTest\<close> is a parameter acting on the state \<open>'s\<close> it can reach.
\<close>

type_synonym c_int = "32 word"

definition N :: c_int where
  "N = 100000"

function onDraw_loop :: "('s \<Rightarrow> 's) \<Rightarrow> c_int \<Rightarrow> 's \<Rightarrow> 's" where
  "onDraw_loop performTest i s =
     (if i <s N then onDraw_loop performTest (i + 1) (performTest s) else s)"
  by pat_completeness auto
termination
proof (relation "measure (\<lambda>(performTest, i, s). nat (sint N - sint i))")
  show "wf (measure (\<lambda>(performTest, i, s). nat (sint N - sint i)))" by simp
next
  fix performTest :: "'s \<Rightarrow> 's" and i :: c_int and s :: 's
  assume "i <s N"
  then have lt: "sint i < 100000" by (simp add: word_sless_alt N_def)
  have "sint (i + 1) = signed_take_bit 31 (sint i + 1)"
    by (simp add: sint_word_ariths)
  also have "\<dots> = sint i + 1"
    using lt sint_ge [of i] by (intro signed_take_bit_int_eq_self) simp_all
  finally have "sint (i + 1) = sint i + 1" .
  with lt show "((performTest, i + 1, performTest s), (performTest, i, s))
      \<in> measure (\<lambda>(performTest, i, s). nat (sint N - sint i))"
    by (simp add: N_def)
qed

declare onDraw_loop.simps [simp del]

definition onDraw :: "('s \<Rightarrow> 's) \<Rightarrow> 's \<Rightarrow> 's" where
  "onDraw performTest s = onDraw_loop performTest 0 s"

text \<open>
  To count invocations, \<open>counted\<close> wraps a \<open>performTest\<close> so that every call also
  advances a call counter kept beside the state.
\<close>

definition counted :: "('s \<Rightarrow> 's) \<Rightarrow> nat \<times> 's \<Rightarrow> nat \<times> 's" where
  "counted performTest = (\<lambda>(n, s). (Suc n, performTest s))"

subsection \<open>The host library\<close>

text \<open>
  Modelled from the spec: \<open>SkMatrix\<close> and \<open>SkFloatToScalar\<close> (headers \<open>SkMatrix.h\<close> and
  \<open>SkScalar.h\<close>, outside the file under study). The spec treats the matrix library as
  out of scope, so its operations are parameters: \<open>'m\<close> is the matrix type and \<open>'sc\<close>
  the scalar type. \<open>reset\<close>, \<open>setScale\<close> and \<open>setTranslate\<close> overwrite the matrix they
  are called on, \<open>preScale\<close> updates it, \<open>equals\<close> is \<open>operator==\<close>, \<open>getType\<close> returns a
  bit mask, and \<open>SkFloatToScalar\<close> converts the exact value of a \<open>float\<close> literal.
\<close>

record ('m, 'sc) Sk_library =
  reset :: "'m"
  setScale :: "'sc \<Rightarrow> 'sc \<Rightarrow> 'm"
  setTranslate :: "'sc \<Rightarrow> 'sc \<Rightarrow> 'm"
  preScale :: "'m \<Rightarrow> 'sc \<Rightarrow> 'sc \<Rightarrow> 'm"
  equals :: "'m \<Rightarrow> 'm \<Rightarrow> bool"
  getType :: "'m \<Rightarrow> nat"
  SkFloatToScalar :: "rat \<Rightarrow> 'sc"

subsection \<open>The guard against dead-code elimination\<close>

text \<open>
  \<open>int gMatrixBench_NonStaticGlobal\<close> is the only global of the file. The macro
  \<open>always_do(pred)\<close> expands to a conditional pre-increment of it. C++ leaves the
  increment of \<open>INT_MAX\<close> undefined; the model takes the two's complement wrap-around
  of a 32-bit \<open>int\<close>.
\<close>

record globals =
  gMatrixBench_NonStaticGlobal :: c_int

definition always_do :: "bool \<Rightarrow> globals \<Rightarrow> globals" where
  "always_do pred G =
     (if pred then G\<lparr>gMatrixBench_NonStaticGlobal := gMatrixBench_NonStaticGlobal G + 1\<rparr>
      else G)"

subsection \<open>EqualsMatrixBench\<close>

text \<open>
  \<open>performTest\<close> works on three local matrices and on the global counter. A mask
  returned by \<open>getType\<close> is a true predicate when it is not zero.
\<close>

definition EqualsMatrixBench_performTest :: "('m, 'sc) Sk_library \<Rightarrow> globals \<Rightarrow> globals" where
  "EqualsMatrixBench_performTest L G =
    (let m0 = reset L;
         m1 = reset L;
         m2 = reset L;
         G = always_do (equals L m0 m1) G;
         G = always_do (equals L m1 m2) G;
         G = always_do (equals L m2 m0) G;
         G = always_do (getType L m0 \<noteq> 0) G;
         G = always_do (getType L m1 \<noteq> 0) G;
         G = always_do (getType L m2 \<noteq> 0) G
     in G)"

text \<open>The number of guards of one call whose predicate holds, when the library's
  identity matrix equals itself: the three comparisons, and the three masks if the mask
  of the identity is not zero.\<close>

definition EqualsMatrixBench_hits :: "('m, 'sc) Sk_library \<Rightarrow> int" where
  "EqualsMatrixBench_hits L = (if getType L (reset L) \<noteq> 0 then 6 else 3)"

subsection \<open>ScaleMatrixBench\<close>

record ('m, 'sc) ScaleMatrixBench = MatrixBench +
  fM0 :: "'m"
  fM1 :: "'m"
  fM2 :: "'m"
  fSX :: "'sc"
  fSY :: "'sc"

text \<open>
  The constructor body is the list of its four statements, in source order, each a state
  transformer; \<open>run\<close> executes statements from left to right. The members have no
  initialisers, so the body starts from the object's storage as it was found (\<open>raw\<close>),
  after the base-class constructor has set the name. \<open>fSX = fSY = c\<close> assigns \<open>fSY\<close>
  first. \<open>ScaleMatrixBench_ctor_upto k\<close> stops after the first \<open>k\<close> statements.
\<close>

definition run :: "('s \<Rightarrow> 's) list \<Rightarrow> 's \<Rightarrow> 's" where
  "run stmts s = fold (\<lambda>stmt s. stmt s) stmts s"

definition ScaleMatrixBench_ctor_body ::
  "('m, 'sc) Sk_library \<Rightarrow> (('m, 'sc) ScaleMatrixBench \<Rightarrow> ('m, 'sc) ScaleMatrixBench) list" where
  "ScaleMatrixBench_ctor_body L =
    [\<lambda>s. s\<lparr>fM0 := reset L\<rparr>,
     \<lambda>s. s\<lparr>fM1 := setScale L (fSX s) (fSY s)\<rparr>,
     \<lambda>s. s\<lparr>fM2 := setTranslate L (fSX s) (fSY s)\<rparr>,
     \<lambda>s. (let s = s\<lparr>fSY := SkFloatToScalar L (3 / 2)\<rparr> in s\<lparr>fSX := fSY s\<rparr>)]"

definition ScaleMatrixBench_ctor_upto ::
  "nat \<Rightarrow> ('m, 'sc) Sk_library \<Rightarrow> ('m, 'sc) ScaleMatrixBench \<Rightarrow> ('m, 'sc) ScaleMatrixBench" where
  "ScaleMatrixBench_ctor_upto k L raw =
     run (take k (ScaleMatrixBench_ctor_body L)) (MatrixBench_ctor ''scale'' raw)"

definition ScaleMatrixBench_ctor ::
  "('m, 'sc) Sk_library \<Rightarrow> ('m, 'sc) ScaleMatrixBench \<Rightarrow> ('m, 'sc) ScaleMatrixBench" where
  "ScaleMatrixBench_ctor L raw =
     ScaleMatrixBench_ctor_upto (length (ScaleMatrixBench_ctor_body L)) L raw"

text \<open>\<open>performTest\<close> copies each member matrix into a local and scales the local.\<close>

definition ScaleMatrixBench_performTest ::
  "('m, 'sc) Sk_library \<Rightarrow> ('m, 'sc) ScaleMatrixBench \<Rightarrow> ('m, 'sc) ScaleMatrixBench" where
  "ScaleMatrixBench_performTest L s =
    (let m = fM0 s; m = preScale L m (fSX s) (fSY s);
         m = fM1 s; m = preScale L m (fSX s) (fSY s);
         m = fM2 s; m = preScale L m (fSX s) (fSY s)
     in s)"

subsection \<open>Floating-point arithmetic as an interface\<close>

text \<open>
  The concatenation benchmarks compute on C++ \<open>float\<close> and \<open>double\<close>. The embedding
  does not fix a rounding model: the operations a benchmark uses on one number type
  are gathered in a record, so that every statement below holds for whatever the
  hardware does, and the exact reading of the arithmetic is one instance.
  \<^item> \<open>fmul\<close> and \<open>fadd\<close> are the binary \<open>*\<close> and \<open>+\<close> of the type,
  \<^item> \<open>lit0\<close> and \<open>lit1\<close> are the literals \<open>0.0f\<close>/\<open>0.0\<close> and \<open>1.0f\<close>/\<open>1.0\<close>.
\<close>

record 'a arith =
  fmul :: "'a \<Rightarrow> 'a \<Rightarrow> 'a"
  fadd :: "'a \<Rightarrow> 'a \<Rightarrow> 'a"
  lit0 :: "'a"
  lit1 :: "'a"

text \<open>
  The two conversions between \<open>float\<close> (type \<open>'f\<close>) and \<open>double\<close> (type \<open>'d\<close>):
  \<open>to_double\<close> is the cast \<open>(double)x\<close> (also applied implicitly to a \<open>float\<close>
  operand of a \<open>double\<close> product), \<open>to_float\<close> is \<open>static_cast<float>(x)\<close>.
\<close>

record ('f, 'd) casts =
  to_double :: "'f \<Rightarrow> 'd"
  to_float :: "'d \<Rightarrow> 'f"

text \<open>The exact reading: the operations of a semiring (the rationals, the reals).\<close>

definition exact :: "'a::semiring_1 arith" where
  "exact = \<lparr>fmul = (*), fadd = (+), lit0 = 0, lit1 = 1\<rparr>"

definition exact_casts :: "('a, 'a) casts" where
  "exact_casts = \<lparr>to_double = (\<lambda>x. x), to_float = (\<lambda>x. x)\<rparr>"

subsection \<open>The three concatenation benchmarks\<close>

text \<open>
  Each of the three classes adds to \<open>MatrixBench\<close> the members \<open>mya\<close>, \<open>myb\<close> and
  \<open>myr\<close>, arrays of nine numbers. An array is a list; the C++ type fixes its length to
  nine, which \<open>wf_arrays\<close> records. The constructors fill the arrays from a random
  generator of the host library; the statements below hold for any contents.
\<close>

record 'a ConcatMatrixBench = MatrixBench +
  mya :: "'a list"
  myb :: "'a list"
  myr :: "'a list"

definition wf_arrays :: "'a ConcatMatrixBench \<Rightarrow> bool" where
  "wf_arrays s = (length (mya s) = 9 \<and> length (myb s) = 9 \<and> length (myr s) = 9)"

text \<open>
  \<open>muladdmul(a, b, c, d, &r[i])\<close> stores through its pointer argument; the pointer is
  modelled by the array and the index it points to.
\<close>

definition FloatConcat_muladdmul ::
  "'f arith \<Rightarrow> 'f \<Rightarrow> 'f \<Rightarrow> 'f \<Rightarrow> 'f \<Rightarrow> 'f list \<Rightarrow> nat \<Rightarrow> 'f list" where
  "FloatConcat_muladdmul F a b c d r i = r[i := fadd F (fmul F a b) (fmul F c d)]"

definition SkDoubleToFloat :: "('f, 'd) casts \<Rightarrow> 'd \<Rightarrow> 'f" where
  "SkDoubleToFloat C x = to_float C x"

definition FloatDoubleConcat_muladdmul ::
  "'d arith \<Rightarrow> ('f, 'd) casts \<Rightarrow> 'f \<Rightarrow> 'f \<Rightarrow> 'f \<Rightarrow> 'f \<Rightarrow> 'f list \<Rightarrow> nat \<Rightarrow> 'f list" where
  "FloatDoubleConcat_muladdmul D C a b c d r i =
     r[i := SkDoubleToFloat C
              (fadd D (fmul D (to_double C a) (to_double C b))
                      (fmul D (to_double C c) (to_double C d)))]"

definition DoubleConcat_muladdmul ::
  "'d arith \<Rightarrow> 'd \<Rightarrow> 'd \<Rightarrow> 'd \<Rightarrow> 'd \<Rightarrow> 'd list \<Rightarrow> nat \<Rightarrow> 'd list" where
  "DoubleConcat_muladdmul D a b c d r i = r[i := fadd D (fmul D a b) (fmul D c d)]"

text \<open>
  The three bodies of \<open>performTest\<close>, statement by statement. \<open>r[2] += a[2]\<close> reads the
  element just stored; \<open>r[6] = r[7] = 0.0f\<close> assigns \<open>r[7]\<close> first and then gives
  \<open>r[6]\<close> the value of that assignment, which is \<open>r[7]\<close>.
\<close>

definition FloatConcat_performTest ::
  "'f arith \<Rightarrow> 'f ConcatMatrixBench \<Rightarrow> 'f ConcatMatrixBench" where
  "FloatConcat_performTest F s =
    (let a = mya s; b = myb s; r = myr s;
         r = FloatConcat_muladdmul F (a ! 0) (b ! 0) (a ! 1) (b ! 3) r 0;
         r = FloatConcat_muladdmul F (a ! 0) (b ! 1) (a ! 1) (b ! 4) r 1;
         r = FloatConcat_muladdmul F (a ! 0) (b ! 2) (a ! 1) (b ! 5) r 2;
         r = r[2 := fadd F (r ! 2) (a ! 2)];
         r = FloatConcat_muladdmul F (a ! 3) (b ! 0) (a ! 4) (b ! 3) r 3;
         r = FloatConcat_muladdmul F (a ! 3) (b ! 1) (a ! 4) (b ! 4) r 4;
         r = FloatConcat_muladdmul F (a ! 3) (b ! 2) (a ! 4) (b ! 5) r 5;
         r = r[5 := fadd F (r ! 5) (a ! 5)];
         r = r[7 := lit0 F];
         r = r[6 := r ! 7];
         r = r[8 := lit1 F]
     in s\<lparr>myr := r\<rparr>)"

definition FloatDoubleConcat_performTest ::
  "'f arith \<Rightarrow> 'd arith \<Rightarrow> ('f, 'd) casts \<Rightarrow> 'f ConcatMatrixBench \<Rightarrow> 'f ConcatMatrixBench" where
  "FloatDoubleConcat_performTest F D C s =
    (let a = mya s; b = myb s; r = myr s;
         r = FloatDoubleConcat_muladdmul D C (a ! 0) (b ! 0) (a ! 1) (b ! 3) r 0;
         r = FloatDoubleConcat_muladdmul D C (a ! 0) (b ! 1) (a ! 1) (b ! 4) r 1;
         r = FloatDoubleConcat_muladdmul D C (a ! 0) (b ! 2) (a ! 1) (b ! 5) r 2;
         r = r[2 := fadd F (r ! 2) (a ! 2)];
         r = FloatDoubleConcat_muladdmul D C (a ! 3) (b ! 0) (a ! 4) (b ! 3) r 3;
         r = FloatDoubleConcat_muladdmul D C (a ! 3) (b ! 1) (a ! 4) (b ! 4) r 4;
         r = FloatDoubleConcat_muladdmul D C (a ! 3) (b ! 2) (a ! 4) (b ! 5) r 5;
         r = r[5 := fadd F (r ! 5) (a ! 5)];
         r = r[7 := lit0 F];
         r = r[6 := r ! 7];
         r = r[8 := lit1 F]
     in s\<lparr>myr := r\<rparr>)"

definition DoubleConcat_performTest ::
  "'d arith \<Rightarrow> 'd ConcatMatrixBench \<Rightarrow> 'd ConcatMatrixBench" where
  "DoubleConcat_performTest D s =
    (let a = mya s; b = myb s; r = myr s;
         r = DoubleConcat_muladdmul D (a ! 0) (b ! 0) (a ! 1) (b ! 3) r 0;
         r = DoubleConcat_muladdmul D (a ! 0) (b ! 1) (a ! 1) (b ! 4) r 1;
         r = DoubleConcat_muladdmul D (a ! 0) (b ! 2) (a ! 1) (b ! 5) r 2;
         r = r[2 := fadd D (r ! 2) (a ! 2)];
         r = DoubleConcat_muladdmul D (a ! 3) (b ! 0) (a ! 4) (b ! 3) r 3;
         r = DoubleConcat_muladdmul D (a ! 3) (b ! 1) (a ! 4) (b ! 4) r 4;
         r = DoubleConcat_muladdmul D (a ! 3) (b ! 2) (a ! 4) (b ! 5) r 5;
         r = r[5 := fadd D (r ! 5) (a ! 5)];
         r = r[7 := lit0 D];
         r = r[6 := r ! 7];
         r = r[8 := lit1 D]
     in s\<lparr>myr := r\<rparr>)"

text \<open>
  Concatenation as the glossary defines it: the product of two 3x3 matrices, both
  stored row by row. Entry \<open>(i, j)\<close> is row \<open>i\<close> of \<open>a\<close> times column \<open>j\<close> of \<open>b\<close>.
\<close>

definition row_times_col :: "'a::semiring_1 list \<Rightarrow> 'a list \<Rightarrow> nat \<Rightarrow> nat \<Rightarrow> 'a" where
  "row_times_col a b i j =
     a ! (3 * i) * b ! j + a ! (3 * i + 1) * b ! (3 + j) + a ! (3 * i + 2) * b ! (6 + j)"

definition matrix_product :: "'a::semiring_1 list \<Rightarrow> 'a list \<Rightarrow> 'a list" where
  "matrix_product a b =
     concat (map (\<lambda>i. map (\<lambda>j. row_times_col a b i j) [0, 1, 2]) [0, 1, 2])"

definition third_row_affine :: "'a::semiring_1 list \<Rightarrow> bool" where
  "third_row_affine m = (length m = 9 \<and> m ! 6 = 0 \<and> m ! 7 = 0 \<and> m ! 8 = 1)"

text \<open>
  The entries the non-perspective concatenation is expected to produce, written out:
  the upper two rows of the product when both third rows are \<open>(0, 0, 1)\<close>.
\<close>

definition affine_concat :: "'a::semiring_1 list \<Rightarrow> 'a list \<Rightarrow> 'a list" where
  "affine_concat a b =
     [a ! 0 * b ! 0 + a ! 1 * b ! 3,
      a ! 0 * b ! 1 + a ! 1 * b ! 4,
      a ! 0 * b ! 2 + a ! 1 * b ! 5 + a ! 2,
      a ! 3 * b ! 0 + a ! 4 * b ! 3,
      a ! 3 * b ! 1 + a ! 4 * b ! 4,
      a ! 3 * b ! 2 + a ! 4 * b ! 5 + a ! 5,
      0, 0, 1]"

subsection \<open>Registration\<close>

text \<open>
  Each benchmark class passes its own name to the \<open>MatrixBench\<close> constructor. A factory
  \<open>M0\<close> .. \<open>M4\<close> creates an object of one class; of the object, the class and the name
  reported by \<open>onGetName\<close> are kept.
\<close>

datatype bench_class = Equals | Scale | FloatConcat | FloatDoubleConcat | DoubleConcat

type_synonym 'p factory = "'p \<Rightarrow> bench_class \<times> string"

definition new_bench :: "bench_class \<Rightarrow> string \<Rightarrow> bench_class \<times> string" where
  "new_bench c name = (c, onGetName (MatrixBench_ctor name \<lparr>fName = []\<rparr>))"

definition M0 :: "'p factory" where
  "M0 p = new_bench Equals ''equals''"

definition M1 :: "'p factory" where
  "M1 p = new_bench Scale ''scale''"

definition M2 :: "'p factory" where
  "M2 p = new_bench FloatConcat ''concat_floatfloat''"

definition M3 :: "'p factory" where
  "M3 p = new_bench FloatDoubleConcat ''concat_floatdouble''"

definition M4 :: "'p factory" where
  "M4 p = new_bench DoubleConcat ''concat_double''"

text \<open>
  Modelled from the spec: \<open>BenchRegistry\<close> (header \<open>SkBenchmark.h\<close>, outside the file
  under study) belongs to the host benchmarking framework; constructing one records its
  factory at the head of the framework's list. The five static objects \<open>gReg0\<close> ..
  \<open>gReg4\<close> are constructed in the order of their definitions.
\<close>

definition BenchRegistry :: "'p factory \<Rightarrow> 'p factory list \<Rightarrow> 'p factory list" where
  "BenchRegistry f registry = f # registry"

definition static_init :: "'p factory list \<Rightarrow> 'p factory list" where
  "static_init registry =
    (let registry = BenchRegistry M0 registry;
         registry = BenchRegistry M1 registry;
         registry = BenchRegistry M2 registry;
         registry = BenchRegistry M3 registry;
         registry = BenchRegistry M4 registry
     in registry)"

subsection \<open>Concrete instances\<close>

text \<open>
  Modelled from the spec: a reference instance of the matrix library, used to run the
  benchmarks on concrete inputs. Following the glossary, a matrix is a 3x3 array stored
  row by row, here over the rationals; \<open>reset\<close> gives the identity, \<open>preScale\<close>
  multiplies by a scale matrix from the right, equality is entrywise, and the mask has
  one bit per kind of transform (translate 1, scale 2, affine 4, perspective 8).
\<close>

definition ref_getType :: "rat list \<Rightarrow> nat" where
  "ref_getType m =
    (if m ! 6 \<noteq> 0 \<or> m ! 7 \<noteq> 0 \<or> m ! 8 \<noteq> 1 then 15
     else (if m ! 2 \<noteq> 0 \<or> m ! 5 \<noteq> 0 then 1 else 0)
        + (if m ! 0 \<noteq> 1 \<or> m ! 4 \<noteq> 1 then 2 else 0)
        + (if m ! 1 \<noteq> 0 \<or> m ! 3 \<noteq> 0 then 4 else 0))"

definition SkMatrix_ref :: "(rat list, rat) Sk_library" where
  "SkMatrix_ref =
    \<lparr>reset = [1, 0, 0, 0, 1, 0, 0, 0, 1],
     setScale = (\<lambda>sx sy. [sx, 0, 0, 0, sy, 0, 0, 0, 1]),
     setTranslate = (\<lambda>dx dy. [1, 0, dx, 0, 1, dy, 0, 0, 1]),
     preScale = (\<lambda>m sx sy. matrix_product m [sx, 0, 0, 0, sy, 0, 0, 0, 1]),
     equals = (\<lambda>m m'. m = m'),
     getType = ref_getType,
     SkFloatToScalar = (\<lambda>x. x)\<rparr>"

text \<open>Two concatenation benchmarks over the rationals: one with affine inputs, one
  whose inputs have arbitrary third rows. Both start with other numbers in \<open>myr\<close>.\<close>

definition affine_bench :: "rat ConcatMatrixBench" where
  "affine_bench =
    \<lparr>fName = ''matrix_concat_floatfloat'',
     mya = [1, 2, 3, 4, 5, 6, 0, 0, 1],
     myb = [7, 8, 9, 10, 11, 12, 0, 0, 1],
     myr = [5, 5, 5, 5, 5, 5, 5, 5, 5]\<rparr>"

definition general_bench :: "rat ConcatMatrixBench" where
  "general_bench =
    \<lparr>fName = ''matrix_concat_double'',
     mya = [1, 2, 3, 4, 5, 6, 7, 8, 9],
     myb = [9, 8, 7, 6, 5, 4, 3, 2, 1],
     myr = [5, 5, 5, 5, 5, 5, 5, 5, 5]\<rparr>"

text \<open>Raw storage for a \<open>ScaleMatrixBench\<close>: whatever the memory held before.\<close>

definition raw_scale :: "(rat list, rat) ScaleMatrixBench" where
  "raw_scale = \<lparr>fName = [], fM0 = [], fM1 = [], fM2 = [], fSX = 7, fSY = - 4\<rparr>"

subsection \<open>IEEE arithmetic as an instance\<close>

text \<open>
  What \<open>float\<close> and \<open>double\<close> compute on IEEE 754 hardware, as an instance of the
  arithmetic interface: a number is a rational, and every operation returns the exact
  result rounded to the nearest number with a significand of \<open>p\<close> bits, ties to the even
  significand; \<open>p\<close> is 24 for \<open>float\<close> (binary32) and 53 for \<open>double\<close> (binary64). The
  instance covers finite values in the normal range (the exponent is not bounded, so
  there is no overflow, no subnormal number and no NaN) and strict evaluation (no
  fused multiply-add, no excess precision). \<open>exponent x\<close> is the integer \<open>e\<close> with
  \<open>2^e \<le> x < 2^(e+1)\<close> for positive \<open>x\<close>, and \<open>ulp p x\<close> is the spacing of the
  \<open>p\<close>-bit numbers around \<open>x\<close>. Every \<open>float\<close> is a \<open>double\<close>, so widening changes
  nothing, and narrowing rounds to 24 bits.
\<close>

definition exponent :: "rat \<Rightarrow> int" where
  "exponent x =
    (let (m, n) = quotient_of x; k = bitlen m - bitlen n
     in if 2 powi k \<le> x then k else k - 1)"

definition ulp :: "nat \<Rightarrow> rat \<Rightarrow> rat" where
  "ulp p x = 2 powi (exponent \<bar>x\<bar> - int p + 1)"

definition round_to :: "nat \<Rightarrow> rat \<Rightarrow> rat" where
  "round_to p x =
    (if x = 0 then 0
     else let u = ulp p x;
              q = \<bar>x\<bar> / u;
              n = \<lfloor>q\<rfloor>;
              f = q - of_int n;
              n' = (if f < 1 / 2 \<or> (f = 1 / 2 \<and> even n) then n else n + 1)
          in sgn x * of_int n' * u)"

definition binary32 :: "rat arith" where
  "binary32 =
    \<lparr>fmul = (\<lambda>x y. round_to 24 (x * y)), fadd = (\<lambda>x y. round_to 24 (x + y)),
     lit0 = 0, lit1 = 1\<rparr>"

definition binary64 :: "rat arith" where
  "binary64 =
    \<lparr>fmul = (\<lambda>x y. round_to 53 (x * y)), fadd = (\<lambda>x y. round_to 53 (x + y)),
     lit0 = 0, lit1 = 1\<rparr>"

definition ieee_casts :: "(rat, rat) casts" where
  "ieee_casts = \<lparr>to_double = (\<lambda>x. x), to_float = round_to 24\<rparr>"

text \<open>
  The static member \<open>muladdmul\<close> of each benchmark class that declares one, with the
  arithmetic of its parameter types: \<open>float\<close> for \<open>FloatConcatMatrixBench\<close>, \<open>double\<close>
  for \<open>DoubleConcatMatrixBench\<close>, and \<open>double\<close> with the two conversions for
  \<open>FloatDoubleConcatMatrixBench\<close>.
\<close>

definition muladdmul_of ::
  "bench_class \<Rightarrow> (rat \<Rightarrow> rat \<Rightarrow> rat \<Rightarrow> rat \<Rightarrow> rat list \<Rightarrow> nat \<Rightarrow> rat list) option" where
  "muladdmul_of cl =
    (case cl of
       Equals \<Rightarrow> None
     | Scale \<Rightarrow> None
     | FloatConcat \<Rightarrow> Some (FloatConcat_muladdmul binary32)
     | FloatDoubleConcat \<Rightarrow> Some (FloatDoubleConcat_muladdmul binary64 ieee_casts)
     | DoubleConcat \<Rightarrow> Some (DoubleConcat_muladdmul binary64))"

text \<open>
  The multiply-accumulate step of the float-with-double-intermediate strategy in the
  wording that widens the products: each product is formed from its \<open>float\<close> operands,
  hence in \<open>float\<close>, and then converted to \<open>double\<close>; the sum is formed in \<open>double\<close> and
  narrowed through \<open>SkDoubleToFloat\<close>. It is compared below with
  \<open>FloatDoubleConcat_muladdmul\<close>, which follows the source.
\<close>

definition products_widened_muladdmul ::
  "'f arith \<Rightarrow> 'd arith \<Rightarrow> ('f, 'd) casts \<Rightarrow> 'f \<Rightarrow> 'f \<Rightarrow> 'f \<Rightarrow> 'f \<Rightarrow> 'f list \<Rightarrow> nat
     \<Rightarrow> 'f list" where
  "products_widened_muladdmul F D C a b c d r i =
     r[i := SkDoubleToFloat C
              (fadd D (to_double C (fmul F a b)) (to_double C (fmul F c d)))]"

section \<open>Properties\<close>

subsection \<open>Shared facts about the concatenation benchmarks\<close>

lemmas muladdmul_defs =
  FloatConcat_muladdmul_def FloatDoubleConcat_muladdmul_def DoubleConcat_muladdmul_def
  SkDoubleToFloat_def

lemma nine_elements:
  assumes "length r = 9"
  obtains x0 x1 x2 x3 x4 x5 x6 x7 x8 where "r = [x0, x1, x2, x3, x4, x5, x6, x7, x8]"
  using assms by (auto simp add: length_Suc_conv eval_nat_numeral)

lemma FloatConcat_myr:
  assumes "length (myr s) = 9"
  shows "myr (FloatConcat_performTest F s) =
    [fadd F (fmul F (mya s ! 0) (myb s ! 0)) (fmul F (mya s ! 1) (myb s ! 3)),
     fadd F (fmul F (mya s ! 0) (myb s ! 1)) (fmul F (mya s ! 1) (myb s ! 4)),
     fadd F (fadd F (fmul F (mya s ! 0) (myb s ! 2)) (fmul F (mya s ! 1) (myb s ! 5)))
            (mya s ! 2),
     fadd F (fmul F (mya s ! 3) (myb s ! 0)) (fmul F (mya s ! 4) (myb s ! 3)),
     fadd F (fmul F (mya s ! 3) (myb s ! 1)) (fmul F (mya s ! 4) (myb s ! 4)),
     fadd F (fadd F (fmul F (mya s ! 3) (myb s ! 2)) (fmul F (mya s ! 4) (myb s ! 5)))
            (mya s ! 5),
     lit0 F, lit0 F, lit1 F]"
proof -
  from assms obtain x0 x1 x2 x3 x4 x5 x6 x7 x8
    where "myr s = [x0, x1, x2, x3, x4, x5, x6, x7, x8]"
    by (rule nine_elements)
  then show ?thesis
    by (simp add: FloatConcat_performTest_def Let_def muladdmul_defs)
qed

lemma FloatDoubleConcat_myr:
  assumes "length (myr s) = 9"
  shows "myr (FloatDoubleConcat_performTest F D C s) =
    [to_float C (fadd D (fmul D (to_double C (mya s ! 0)) (to_double C (myb s ! 0)))
                        (fmul D (to_double C (mya s ! 1)) (to_double C (myb s ! 3)))),
     to_float C (fadd D (fmul D (to_double C (mya s ! 0)) (to_double C (myb s ! 1)))
                        (fmul D (to_double C (mya s ! 1)) (to_double C (myb s ! 4)))),
     fadd F (to_float C (fadd D (fmul D (to_double C (mya s ! 0)) (to_double C (myb s ! 2)))
                                (fmul D (to_double C (mya s ! 1)) (to_double C (myb s ! 5)))))
            (mya s ! 2),
     to_float C (fadd D (fmul D (to_double C (mya s ! 3)) (to_double C (myb s ! 0)))
                        (fmul D (to_double C (mya s ! 4)) (to_double C (myb s ! 3)))),
     to_float C (fadd D (fmul D (to_double C (mya s ! 3)) (to_double C (myb s ! 1)))
                        (fmul D (to_double C (mya s ! 4)) (to_double C (myb s ! 4)))),
     fadd F (to_float C (fadd D (fmul D (to_double C (mya s ! 3)) (to_double C (myb s ! 2)))
                                (fmul D (to_double C (mya s ! 4)) (to_double C (myb s ! 5)))))
            (mya s ! 5),
     lit0 F, lit0 F, lit1 F]"
proof -
  from assms obtain x0 x1 x2 x3 x4 x5 x6 x7 x8
    where "myr s = [x0, x1, x2, x3, x4, x5, x6, x7, x8]"
    by (rule nine_elements)
  then show ?thesis
    by (simp add: FloatDoubleConcat_performTest_def Let_def muladdmul_defs)
qed

lemma DoubleConcat_myr:
  assumes "length (myr s) = 9"
  shows "myr (DoubleConcat_performTest D s) =
    [fadd D (fmul D (mya s ! 0) (myb s ! 0)) (fmul D (mya s ! 1) (myb s ! 3)),
     fadd D (fmul D (mya s ! 0) (myb s ! 1)) (fmul D (mya s ! 1) (myb s ! 4)),
     fadd D (fadd D (fmul D (mya s ! 0) (myb s ! 2)) (fmul D (mya s ! 1) (myb s ! 5)))
            (mya s ! 2),
     fadd D (fmul D (mya s ! 3) (myb s ! 0)) (fmul D (mya s ! 4) (myb s ! 3)),
     fadd D (fmul D (mya s ! 3) (myb s ! 1)) (fmul D (mya s ! 4) (myb s ! 4)),
     fadd D (fadd D (fmul D (mya s ! 3) (myb s ! 2)) (fmul D (mya s ! 4) (myb s ! 5)))
            (mya s ! 5),
     lit0 D, lit0 D, lit1 D]"
proof -
  from assms obtain x0 x1 x2 x3 x4 x5 x6 x7 x8
    where "myr s = [x0, x1, x2, x3, x4, x5, x6, x7, x8]"
    by (rule nine_elements)
  then show ?thesis
    by (simp add: DoubleConcat_performTest_def Let_def muladdmul_defs)
qed

lemma FloatConcat_only_myr:
  "FloatConcat_performTest F s = s\<lparr>myr := myr (FloatConcat_performTest F s)\<rparr>"
  by (simp add: FloatConcat_performTest_def Let_def)

lemma FloatDoubleConcat_only_myr:
  "FloatDoubleConcat_performTest F D C s =
     s\<lparr>myr := myr (FloatDoubleConcat_performTest F D C s)\<rparr>"
  by (simp add: FloatDoubleConcat_performTest_def Let_def)

lemma DoubleConcat_only_myr:
  "DoubleConcat_performTest D s = s\<lparr>myr := myr (DoubleConcat_performTest D s)\<rparr>"
  by (simp add: DoubleConcat_performTest_def Let_def)

lemma same_formula:
  "FloatDoubleConcat_performTest A A exact_casts s = FloatConcat_performTest A s"
  "DoubleConcat_performTest A s = FloatConcat_performTest A s"
  by (simp_all add: FloatDoubleConcat_performTest_def FloatConcat_performTest_def
      DoubleConcat_performTest_def muladdmul_defs exact_casts_def)

lemma matrix_product_affine:
  assumes "third_row_affine a" and "third_row_affine b"
  shows "matrix_product a b = affine_concat a b"
  using assms
  by (simp add: matrix_product_def row_times_col_def affine_concat_def third_row_affine_def
      eval_nat_numeral)

lemma FloatConcat_exact:
  "length (myr s) = 9 \<Longrightarrow>
   myr (FloatConcat_performTest exact s) = affine_concat (mya s) (myb s)"
  by (simp add: FloatConcat_myr exact_def affine_concat_def)

subsection \<open>Concatenation computes the matrix product\<close>

text \<open>
  Claim C1. Read with exact arithmetic, one call of \<open>performTest\<close> on each of the three
  concatenation benchmarks stores in \<open>myr\<close> the row-major product of \<open>mya\<close> and \<open>myb\<close>,
  provided the third rows of both inputs are \<open>(0, 0, 1)\<close>; the product then has the
  entries \<open>r[0] = a0*b0 + a1*b3\<close>, ..., \<open>r[5] = a3*b2 + a4*b5 + a5\<close>, \<open>r[6] = r[7] = 0\<close>,
  \<open>r[8] = 1\<close> listed by \<open>affine_concat\<close>.
\<close>

theorem concat_is_matrix_product:
  assumes "wf_arrays s"
    and "third_row_affine (mya s)"
    and "third_row_affine (myb s)"
  shows "myr (FloatConcat_performTest exact s) = matrix_product (mya s) (myb s)
       \<and> myr (FloatDoubleConcat_performTest exact exact exact_casts s)
           = matrix_product (mya s) (myb s)
       \<and> myr (DoubleConcat_performTest exact s) = matrix_product (mya s) (myb s)
       \<and> matrix_product (mya s) (myb s) = affine_concat (mya s) (myb s)"
proof -
  from assms(1) have len: "length (myr s) = 9"
    by (simp add: wf_arrays_def)
  have prod: "matrix_product (mya s) (myb s) = affine_concat (mya s) (myb s)"
    using assms(2,3) by (rule matrix_product_affine)
  have float: "myr (FloatConcat_performTest exact s) = affine_concat (mya s) (myb s)"
    using len by (rule FloatConcat_exact)
  show ?thesis
    by (simp only: same_formula float prod)
qed

theorem concat_is_matrix_product_witness:
  "wf_arrays affine_bench
   \<and> third_row_affine (mya affine_bench)
   \<and> third_row_affine (myb affine_bench)
   \<and> myr (FloatConcat_performTest exact affine_bench) = [27, 30, 36, 78, 87, 102, 0, 0, 1]
   \<and> myr (FloatDoubleConcat_performTest exact exact exact_casts affine_bench)
       = [27, 30, 36, 78, 87, 102, 0, 0, 1]
   \<and> myr (DoubleConcat_performTest exact affine_bench) = [27, 30, 36, 78, 87, 102, 0, 0, 1]
   \<and> matrix_product (mya affine_bench) (myb affine_bench)
       = [27, 30, 36, 78, 87, 102, 0, 0, 1]"
proof -
  have wf: "wf_arrays affine_bench"
    by (simp add: wf_arrays_def affine_bench_def)
  have a: "third_row_affine (mya affine_bench)"
    by (simp add: third_row_affine_def affine_bench_def)
  have b: "third_row_affine (myb affine_bench)"
    by (simp add: third_row_affine_def affine_bench_def)
  have p: "affine_concat (mya affine_bench) (myb affine_bench)
      = [27, 30, 36, 78, 87, 102, 0, 0, 1]"
    by (simp add: affine_concat_def affine_bench_def)
  from concat_is_matrix_product [OF wf a b] wf a b p show ?thesis
    by simp
qed

subsection \<open>Facts about rounding\<close>

lemma pow_bitlen:
  assumes "0 < (m::int)"
  shows "(2::rat) powi (bitlen m - 1) \<le> of_int m \<and> of_int m < (2::rat) powi (bitlen m)"
proof -
  from bitlen_bounds [OF assms]
  have lo: "2 ^ nat (bitlen m - 1) \<le> m" and hi: "m < 2 ^ nat (bitlen m)"
    by simp_all
  have b: "1 \<le> bitlen m"
    using assms by (simp add: bitlen_alt_def)
  have "(2::rat) powi (bitlen m - 1) = 2 ^ nat (bitlen m - 1)"
    using b by (simp add: power_int_def)
  moreover have "(2::rat) powi (bitlen m) = 2 ^ nat (bitlen m)"
    using b by (simp add: power_int_def)
  moreover have "(of_int (2 ^ nat (bitlen m - 1)) :: rat) \<le> of_int m"
    using lo by (simp only: of_int_le_iff)
  moreover have "(of_int m :: rat) < of_int (2 ^ nat (bitlen m))"
    using hi by (simp only: of_int_less_iff)
  ultimately show ?thesis
    by simp
qed

lemma exponent_bounds:
  assumes "0 < x"
  shows "2 powi (exponent x) \<le> x \<and> x < 2 powi (exponent x + 1)"
proof -
  obtain m n where q: "quotient_of x = (m, n)"
    by (cases "quotient_of x")
  then have n: "0 < n"
    using quotient_of_denom_pos by blast
  from q have x: "x = of_int m / of_int n"
    by (rule quotient_of_div)
  with assms n have m: "0 < m"
    by (simp add: zero_less_divide_iff)
  let ?k = "bitlen m - bitlen n"
  from pow_bitlen [OF m] pow_bitlen [OF n]
  have bm: "(2::rat) powi (bitlen m - 1) \<le> of_int m" "of_int m < (2::rat) powi (bitlen m)"
    and bn: "(2::rat) powi (bitlen n - 1) \<le> of_int n" "of_int n < (2::rat) powi (bitlen n)"
    by simp_all
  have npos: "(0::rat) < of_int n"
    using n by simp
  have lo: "2 powi (?k - 1) \<le> x"
  proof -
    have "(2::rat) powi (?k - 1) * of_int n \<le> 2 powi (?k - 1) * 2 powi (bitlen n)"
      using bn(2) by (intro mult_left_mono) simp_all
    also have "\<dots> = 2 powi (bitlen m - 1)"
      by (simp flip: power_int_add)
    also have "\<dots> \<le> of_int m"
      by (rule bm(1))
    finally show ?thesis
      using npos by (simp add: x pos_le_divide_eq)
  qed
  have hi: "x < 2 powi (?k + 1)"
  proof -
    have "of_int m < (2::rat) powi (bitlen m)"
      by (rule bm(2))
    also have "\<dots> = 2 powi (?k + 1) * 2 powi (bitlen n - 1)"
      by (simp flip: power_int_add)
    also have "\<dots> \<le> 2 powi (?k + 1) * of_int n"
      using bn(1) by (intro mult_left_mono) simp_all
    finally show ?thesis
      using npos by (simp add: x pos_divide_less_eq)
  qed
  show ?thesis
  proof (cases "2 powi ?k \<le> x")
    case True
    then show ?thesis
      using hi by (simp add: exponent_def q)
  next
    case False
    then have "x < 2 powi ?k"
      by simp
    moreover have "?k - 1 + 1 = ?k"
      by simp
    ultimately show ?thesis
      using lo False by (simp add: exponent_def q)
  qed
qed

text \<open>The rounded value is a nearest one: it is at most half a spacing away.\<close>

lemma round_to_nearest:
  "\<bar>round_to p x - x\<bar> \<le> ulp p x / 2"
proof (cases "x = 0")
  case True
  then show ?thesis
    by (simp add: round_to_def ulp_def)
next
  case False
  define u where "u = ulp p x"
  define q where "q = \<bar>x\<bar> / u"
  define n where "n = \<lfloor>q\<rfloor>"
  define f where "f = q - of_int n"
  define n' where "n' = (if f < 1 / 2 \<or> (f = 1 / 2 \<and> even n) then n else n + 1)"
  have u: "0 < u"
    by (simp add: u_def ulp_def)
  have r: "round_to p x = sgn x * of_int n' * u"
    using False by (simp add: round_to_def Let_def u_def q_def n_def f_def n'_def)
  have "q * u = \<bar>x\<bar>"
    using u by (simp add: q_def)
  then have x: "x = sgn x * q * u"
    by (simp add: mult.assoc mult_sgn_abs)
  have f: "0 \<le> f" "f < 1"
    by (simp_all add: f_def n_def) linarith+
  have "\<bar>of_int n' - q\<bar> \<le> 1 / 2"
    using f by (auto simp add: n'_def f_def)
  moreover have "round_to p x - x = sgn x * (of_int n' - q) * u"
    by (subst x, subst r) (simp add: algebra_simps)
  then have "\<bar>round_to p x - x\<bar> = \<bar>of_int n' - q\<bar> * u"
    using False u by (simp add: abs_mult abs_sgn_eq)
  ultimately have "\<bar>round_to p x - x\<bar> \<le> (1 / 2) * u"
    using u by (simp add: mult_right_mono)
  then show ?thesis
    by (simp add: u_def)
qed

text \<open>The rounded value has a significand of \<open>p\<close> bits (or is the next power of two).\<close>

lemma round_to_significand:
  assumes "x \<noteq> 0" and "0 < p"
  shows "\<exists>n. round_to p x = sgn x * of_int n * ulp p x \<and> 2 ^ (p - 1) \<le> n \<and> n \<le> 2 ^ p"
proof -
  define u where "u = ulp p x"
  define q where "q = \<bar>x\<bar> / u"
  define n where "n = \<lfloor>q\<rfloor>"
  define f where "f = q - of_int n"
  define n' where "n' = (if f < 1 / 2 \<or> (f = 1 / 2 \<and> even n) then n else n + 1)"
  have u: "0 < u"
    by (simp add: u_def ulp_def)
  have r: "round_to p x = sgn x * of_int n' * u"
    using assms(1) by (simp add: round_to_def Let_def u_def q_def n_def f_def n'_def)
  have ax: "0 < \<bar>x\<bar>"
    using assms(1) by simp
  note eb = exponent_bounds [OF ax]
  let ?e = "exponent \<bar>x\<bar>"
  have p2: "(2::rat) powi (?e + 1) = 2 ^ p * u"
  proof -
    have "(2::rat) powi (?e + 1) = 2 powi (int p + (?e - int p + 1))"
      by simp
    also have "\<dots> = 2 powi (int p) * 2 powi (?e - int p + 1)"
      by (rule power_int_add) simp
    finally show ?thesis
      by (simp add: u_def ulp_def)
  qed
  have p1: "(2::rat) powi ?e = 2 ^ (p - 1) * u"
  proof -
    have "(2::rat) powi ?e = 2 powi (int (p - 1) + (?e - int p + 1))"
      using assms(2) by (simp add: of_nat_diff)
    also have "\<dots> = 2 powi (int (p - 1)) * 2 powi (?e - int p + 1)"
      by (rule power_int_add) simp
    finally show ?thesis
      by (simp add: u_def ulp_def)
  qed
  have qlo: "2 ^ (p - 1) \<le> q"
    using eb p1 u by (simp add: q_def pos_le_divide_eq)
  have qhi: "q < 2 ^ p"
    using eb p2 u by (simp add: q_def pos_divide_less_eq)
  have "(of_int (2 ^ (p - 1)) :: rat) \<le> q"
    using qlo by simp
  then have nlo: "2 ^ (p - 1) \<le> n"
    unfolding n_def by (simp only: le_floor_iff)
  have "q < of_int (2 ^ p)"
    using qhi by simp
  then have nhi: "n < 2 ^ p"
    unfolding n_def by (simp only: floor_less_iff)
  have "2 ^ (p - 1) \<le> n' \<and> n' \<le> 2 ^ p"
    using nlo nhi by (simp add: n'_def)
  with r show ?thesis
    unfolding u_def by blast
qed

text \<open>
  Known values: \<open>1.0f / 3\<close> and \<open>0.1\<close> as stored by binary32 and binary64, a number
  that needs no rounding, and two ties, one resolved downwards and one upwards.
\<close>

lemma round_to_known_values:
  "round_to 24 (1 / 3) = 11184811 / 2 ^ 25"
  "round_to 53 (1 / 10) = 3602879701896397 / 2 ^ 55"
  "round_to 24 (1 + 3 / 2 ^ 23) = 1 + 3 / 2 ^ 23"
  "round_to 24 (1 + 1 / 2 ^ 24) = 1"
  "round_to 24 (1 + 3 / 2 ^ 24) = 1 + 1 / 2 ^ 22"
  by code_simp+

text \<open>
  On the \<open>float\<close> inputs \<open>1\<close>, \<open>1\<close>, \<open>-(1 + 2^-23)\<close> and \<open>1 + 3 * 2^-23\<close> the exact value
  of \<open>a*b + c*d\<close> is \<open>-(2^-21 + 3 * 2^-46)\<close>; the three strategies store three
  different numbers.
\<close>

lemma float_only_value:
  "FloatConcat_muladdmul binary32 1 1 (- (1 + 1 / 2 ^ 23)) (1 + 3 / 2 ^ 23) [0] 0
     = [- (1 / 2 ^ 21)]"
  by code_simp

lemma float_double_value:
  "FloatDoubleConcat_muladdmul binary64 ieee_casts 1 1 (- (1 + 1 / 2 ^ 23)) (1 + 3 / 2 ^ 23) [0] 0
     = [- (8388609 / 2 ^ 44)]"
  by code_simp

lemma double_only_value:
  "DoubleConcat_muladdmul binary64 1 1 (- (1 + 1 / 2 ^ 23)) (1 + 3 / 2 ^ 23) [0] 0
     = [- (33554435 / 2 ^ 46)]"
  by code_simp

lemma three_values_differ:
  "[- (1 / 2 ^ 21)] \<noteq> [- (8388609 / 2 ^ 44 :: rat)]"
  "[- (8388609 / 2 ^ 44)] \<noteq> [- (33554435 / 2 ^ 46 :: rat)]"
  "[- (1 / 2 ^ 21)] \<noteq> [- (33554435 / 2 ^ 46 :: rat)]"
  by simp_all

subsection \<open>The three precision strategies\<close>

text \<open>
  Claim C2, as stated, fails in its description of the middle strategy.
  \<open>FloatDoubleConcatMatrixBench::muladdmul\<close> does not widen the products: it evaluates
  \<open>(double)a * b + (double)c * d\<close>, which widens the operands and forms the products in
  \<open>double\<close>, where the product of two \<open>float\<close>s is exact. With IEEE arithmetic, on the
  \<open>float\<close> inputs \<open>1\<close>, \<open>1\<close>, \<open>-(1 + 2^-23)\<close> and \<open>1 + 3 * 2^-23\<close> (each is its own
  rounding to 24 bits), the source stores \<open>-8388609 * 2^-44\<close>, whereas widening the
  \<open>float\<close> products stores \<open>-2^-21\<close>.
\<close>

theorem products_widened_counterexample:
  "round_to 24 (- (1 + 1 / 2 ^ 23)) = - (1 + 1 / 2 ^ 23)
   \<and> round_to 24 (1 + 3 / 2 ^ 23) = 1 + 3 / 2 ^ 23
   \<and> FloatDoubleConcat_muladdmul binary64 ieee_casts
        1 1 (- (1 + 1 / 2 ^ 23)) (1 + 3 / 2 ^ 23) [0] 0 = [- (8388609 / 2 ^ 44)]
   \<and> products_widened_muladdmul binary32 binary64 ieee_casts
        1 1 (- (1 + 1 / 2 ^ 23)) (1 + 3 / 2 ^ 23) [0] 0 = [- (1 / 2 ^ 21)]
   \<and> FloatDoubleConcat_muladdmul binary64 ieee_casts
        1 1 (- (1 + 1 / 2 ^ 23)) (1 + 3 / 2 ^ 23) [0] 0
       \<noteq> products_widened_muladdmul binary32 binary64 ieee_casts
        1 1 (- (1 + 1 / 2 ^ 23)) (1 + 3 / 2 ^ 23) [0] 0"
  by code_simp

text \<open>
  Claim C2, amended. The multiply-accumulate step exists in exactly three forms, one
  in each concatenation benchmark and none in the other two classes, and the three are
  pairwise different functions. \<open>FloatConcatMatrixBench::muladdmul\<close> forms both products
  and their sum with the \<open>float\<close> operations, so each is rounded to 24 bits.
  \<open>FloatDoubleConcatMatrixBench::muladdmul\<close> widens the operands to \<open>double\<close>, forms both
  products and their sum with the \<open>double\<close> operations, rounding to 53 bits, and
  narrows the sum to \<open>float\<close> through \<open>SkDoubleToFloat\<close>.
  \<open>DoubleConcatMatrixBench::muladdmul\<close> uses the \<open>double\<close> operations only. In each
  benchmark the six computed entries of \<open>myr\<close> after \<open>performTest\<close> are what the class's
  own \<open>muladdmul\<close> stores, with \<open>a[2]\<close> and \<open>a[5]\<close> added to entries 2 and 5.
\<close>

theorem muladdmul_three_strategies:
  assumes "length (myr s) = 9" and "length (myr t) = 9"
  shows "FloatConcat_muladdmul F a b c d r i = r[i := fadd F (fmul F a b) (fmul F c d)]
       \<and> FloatDoubleConcat_muladdmul D C a b c d r i =
           r[i := SkDoubleToFloat C
                    (fadd D (fmul D (to_double C a) (to_double C b))
                            (fmul D (to_double C c) (to_double C d)))]
       \<and> DoubleConcat_muladdmul D a' b' c' d' r' i =
           r'[i := fadd D (fmul D a' b') (fmul D c' d')]
       \<and> FloatConcat_muladdmul binary32 x y z w q j =
           q[j := round_to 24 (round_to 24 (x * y) + round_to 24 (z * w))]
       \<and> FloatDoubleConcat_muladdmul binary64 ieee_casts x y z w q j =
           q[j := round_to 24 (round_to 53 (round_to 53 (x * y) + round_to 53 (z * w)))]
       \<and> DoubleConcat_muladdmul binary64 x y z w q j =
           q[j := round_to 53 (round_to 53 (x * y) + round_to 53 (z * w))]
       \<and> myr (FloatConcat_performTest F s) =
           [FloatConcat_muladdmul F (mya s ! 0) (myb s ! 0) (mya s ! 1) (myb s ! 3) (myr s) 0 ! 0,
            FloatConcat_muladdmul F (mya s ! 0) (myb s ! 1) (mya s ! 1) (myb s ! 4) (myr s) 1 ! 1,
            fadd F
              (FloatConcat_muladdmul F (mya s ! 0) (myb s ! 2) (mya s ! 1) (myb s ! 5) (myr s) 2 ! 2)
              (mya s ! 2),
            FloatConcat_muladdmul F (mya s ! 3) (myb s ! 0) (mya s ! 4) (myb s ! 3) (myr s) 3 ! 3,
            FloatConcat_muladdmul F (mya s ! 3) (myb s ! 1) (mya s ! 4) (myb s ! 4) (myr s) 4 ! 4,
            fadd F
              (FloatConcat_muladdmul F (mya s ! 3) (myb s ! 2) (mya s ! 4) (myb s ! 5) (myr s) 5 ! 5)
              (mya s ! 5),
            lit0 F, lit0 F, lit1 F]
       \<and> myr (FloatDoubleConcat_performTest F D C s) =
           [FloatDoubleConcat_muladdmul D C
              (mya s ! 0) (myb s ! 0) (mya s ! 1) (myb s ! 3) (myr s) 0 ! 0,
            FloatDoubleConcat_muladdmul D C
              (mya s ! 0) (myb s ! 1) (mya s ! 1) (myb s ! 4) (myr s) 1 ! 1,
            fadd F
              (FloatDoubleConcat_muladdmul D C
                (mya s ! 0) (myb s ! 2) (mya s ! 1) (myb s ! 5) (myr s) 2 ! 2)
              (mya s ! 2),
            FloatDoubleConcat_muladdmul D C
              (mya s ! 3) (myb s ! 0) (mya s ! 4) (myb s ! 3) (myr s) 3 ! 3,
            FloatDoubleConcat_muladdmul D C
              (mya s ! 3) (myb s ! 1) (mya s ! 4) (myb s ! 4) (myr s) 4 ! 4,
            fadd F
              (FloatDoubleConcat_muladdmul D C
                (mya s ! 3) (myb s ! 2) (mya s ! 4) (myb s ! 5) (myr s) 5 ! 5)
              (mya s ! 5),
            lit0 F, lit0 F, lit1 F]
       \<and> myr (DoubleConcat_performTest D t) =
           [DoubleConcat_muladdmul D (mya t ! 0) (myb t ! 0) (mya t ! 1) (myb t ! 3) (myr t) 0 ! 0,
            DoubleConcat_muladdmul D (mya t ! 0) (myb t ! 1) (mya t ! 1) (myb t ! 4) (myr t) 1 ! 1,
            fadd D
              (DoubleConcat_muladdmul D (mya t ! 0) (myb t ! 2) (mya t ! 1) (myb t ! 5) (myr t) 2 ! 2)
              (mya t ! 2),
            DoubleConcat_muladdmul D (mya t ! 3) (myb t ! 0) (mya t ! 4) (myb t ! 3) (myr t) 3 ! 3,
            DoubleConcat_muladdmul D (mya t ! 3) (myb t ! 1) (mya t ! 4) (myb t ! 4) (myr t) 4 ! 4,
            fadd D
              (DoubleConcat_muladdmul D (mya t ! 3) (myb t ! 2) (mya t ! 4) (myb t ! 5) (myr t) 5 ! 5)
              (mya t ! 5),
            lit0 D, lit0 D, lit1 D]
       \<and> dom muladdmul_of = {FloatConcat, FloatDoubleConcat, DoubleConcat}
       \<and> card (dom muladdmul_of) = 3
       \<and> muladdmul_of FloatConcat \<noteq> muladdmul_of FloatDoubleConcat
       \<and> muladdmul_of FloatDoubleConcat \<noteq> muladdmul_of DoubleConcat
       \<and> muladdmul_of FloatConcat \<noteq> muladdmul_of DoubleConcat"
proof -
  have gen: "FloatConcat_muladdmul F a b c d r i = r[i := fadd F (fmul F a b) (fmul F c d)]"
    "FloatDoubleConcat_muladdmul D C a b c d r i =
       r[i := SkDoubleToFloat C
                (fadd D (fmul D (to_double C a) (to_double C b))
                        (fmul D (to_double C c) (to_double C d)))]"
    "DoubleConcat_muladdmul D a' b' c' d' r' i =
       r'[i := fadd D (fmul D a' b') (fmul D c' d')]"
    by (simp_all add: FloatConcat_muladdmul_def FloatDoubleConcat_muladdmul_def
        DoubleConcat_muladdmul_def)
  have ieee: "FloatConcat_muladdmul binary32 x y z w q j =
       q[j := round_to 24 (round_to 24 (x * y) + round_to 24 (z * w))]"
    "FloatDoubleConcat_muladdmul binary64 ieee_casts x y z w q j =
       q[j := round_to 24 (round_to 53 (round_to 53 (x * y) + round_to 53 (z * w)))]"
    "DoubleConcat_muladdmul binary64 x y z w q j =
       q[j := round_to 53 (round_to 53 (x * y) + round_to 53 (z * w))]"
    by (simp_all add: muladdmul_defs binary32_def binary64_def ieee_casts_def)
  from assms(1) obtain x0 x1 x2 x3 x4 x5 x6 x7 x8
    where s: "myr s = [x0, x1, x2, x3, x4, x5, x6, x7, x8]"
    by (rule nine_elements)
  from assms(2) obtain y0 y1 y2 y3 y4 y5 y6 y7 y8
    where t: "myr t = [y0, y1, y2, y3, y4, y5, y6, y7, y8]"
    by (rule nine_elements)
  have useF: "myr (FloatConcat_performTest F s) =
       [FloatConcat_muladdmul F (mya s ! 0) (myb s ! 0) (mya s ! 1) (myb s ! 3) (myr s) 0 ! 0,
        FloatConcat_muladdmul F (mya s ! 0) (myb s ! 1) (mya s ! 1) (myb s ! 4) (myr s) 1 ! 1,
        fadd F
          (FloatConcat_muladdmul F (mya s ! 0) (myb s ! 2) (mya s ! 1) (myb s ! 5) (myr s) 2 ! 2)
          (mya s ! 2),
        FloatConcat_muladdmul F (mya s ! 3) (myb s ! 0) (mya s ! 4) (myb s ! 3) (myr s) 3 ! 3,
        FloatConcat_muladdmul F (mya s ! 3) (myb s ! 1) (mya s ! 4) (myb s ! 4) (myr s) 4 ! 4,
        fadd F
          (FloatConcat_muladdmul F (mya s ! 3) (myb s ! 2) (mya s ! 4) (myb s ! 5) (myr s) 5 ! 5)
          (mya s ! 5),
        lit0 F, lit0 F, lit1 F]"
    by (simp add: FloatConcat_myr [OF assms(1)] FloatConcat_muladdmul_def s)
  have useFD: "myr (FloatDoubleConcat_performTest F D C s) =
       [FloatDoubleConcat_muladdmul D C
          (mya s ! 0) (myb s ! 0) (mya s ! 1) (myb s ! 3) (myr s) 0 ! 0,
        FloatDoubleConcat_muladdmul D C
          (mya s ! 0) (myb s ! 1) (mya s ! 1) (myb s ! 4) (myr s) 1 ! 1,
        fadd F
          (FloatDoubleConcat_muladdmul D C
            (mya s ! 0) (myb s ! 2) (mya s ! 1) (myb s ! 5) (myr s) 2 ! 2)
          (mya s ! 2),
        FloatDoubleConcat_muladdmul D C
          (mya s ! 3) (myb s ! 0) (mya s ! 4) (myb s ! 3) (myr s) 3 ! 3,
        FloatDoubleConcat_muladdmul D C
          (mya s ! 3) (myb s ! 1) (mya s ! 4) (myb s ! 4) (myr s) 4 ! 4,
        fadd F
          (FloatDoubleConcat_muladdmul D C
            (mya s ! 3) (myb s ! 2) (mya s ! 4) (myb s ! 5) (myr s) 5 ! 5)
          (mya s ! 5),
        lit0 F, lit0 F, lit1 F]"
    by (simp add: FloatDoubleConcat_myr [OF assms(1)] FloatDoubleConcat_muladdmul_def
        SkDoubleToFloat_def s)
  have useD: "myr (DoubleConcat_performTest D t) =
       [DoubleConcat_muladdmul D (mya t ! 0) (myb t ! 0) (mya t ! 1) (myb t ! 3) (myr t) 0 ! 0,
        DoubleConcat_muladdmul D (mya t ! 0) (myb t ! 1) (mya t ! 1) (myb t ! 4) (myr t) 1 ! 1,
        fadd D
          (DoubleConcat_muladdmul D (mya t ! 0) (myb t ! 2) (mya t ! 1) (myb t ! 5) (myr t) 2 ! 2)
          (mya t ! 2),
        DoubleConcat_muladdmul D (mya t ! 3) (myb t ! 0) (mya t ! 4) (myb t ! 3) (myr t) 3 ! 3,
        DoubleConcat_muladdmul D (mya t ! 3) (myb t ! 1) (mya t ! 4) (myb t ! 4) (myr t) 4 ! 4,
        fadd D
          (DoubleConcat_muladdmul D (mya t ! 3) (myb t ! 2) (mya t ! 4) (myb t ! 5) (myr t) 5 ! 5)
          (mya t ! 5),
        lit0 D, lit0 D, lit1 D]"
    by (simp add: DoubleConcat_myr [OF assms(2)] DoubleConcat_muladdmul_def t)
  have "muladdmul_of cl \<noteq> None \<longleftrightarrow> cl \<in> {FloatConcat, FloatDoubleConcat, DoubleConcat}"
    for cl
    by (cases cl) (simp_all add: muladdmul_of_def)
  then have dom: "dom muladdmul_of = {FloatConcat, FloatDoubleConcat, DoubleConcat}"
    unfolding dom_def by blast
  have card: "card (dom muladdmul_of) = 3"
    by (simp add: dom)
  have ne1: "muladdmul_of FloatConcat \<noteq> muladdmul_of FloatDoubleConcat"
  proof
    assume "muladdmul_of FloatConcat = muladdmul_of FloatDoubleConcat"
    then have "FloatConcat_muladdmul binary32 = FloatDoubleConcat_muladdmul binary64 ieee_casts"
      by (simp add: muladdmul_of_def)
    then have "FloatConcat_muladdmul binary32 1 1 (- (1 + 1 / 2 ^ 23)) (1 + 3 / 2 ^ 23) [0] 0
        = FloatDoubleConcat_muladdmul binary64 ieee_casts
            1 1 (- (1 + 1 / 2 ^ 23)) (1 + 3 / 2 ^ 23) [0] 0"
      by (rule arg_cong [where f = "\<lambda>m. m 1 1 (- (1 + 1 / 2 ^ 23)) (1 + 3 / 2 ^ 23) [0] 0"])
    with three_values_differ(1) show False
      by (simp only: float_only_value float_double_value)
  qed
  have ne2: "muladdmul_of FloatDoubleConcat \<noteq> muladdmul_of DoubleConcat"
  proof
    assume "muladdmul_of FloatDoubleConcat = muladdmul_of DoubleConcat"
    then have "FloatDoubleConcat_muladdmul binary64 ieee_casts = DoubleConcat_muladdmul binary64"
      by (simp add: muladdmul_of_def)
    then have "FloatDoubleConcat_muladdmul binary64 ieee_casts
            1 1 (- (1 + 1 / 2 ^ 23)) (1 + 3 / 2 ^ 23) [0] 0
        = DoubleConcat_muladdmul binary64 1 1 (- (1 + 1 / 2 ^ 23)) (1 + 3 / 2 ^ 23) [0] 0"
      by (rule arg_cong [where f = "\<lambda>m. m 1 1 (- (1 + 1 / 2 ^ 23)) (1 + 3 / 2 ^ 23) [0] 0"])
    with three_values_differ(2) show False
      by (simp only: float_double_value double_only_value)
  qed
  have ne3: "muladdmul_of FloatConcat \<noteq> muladdmul_of DoubleConcat"
  proof
    assume "muladdmul_of FloatConcat = muladdmul_of DoubleConcat"
    then have "FloatConcat_muladdmul binary32 = DoubleConcat_muladdmul binary64"
      by (simp add: muladdmul_of_def)
    then have "FloatConcat_muladdmul binary32 1 1 (- (1 + 1 / 2 ^ 23)) (1 + 3 / 2 ^ 23) [0] 0
        = DoubleConcat_muladdmul binary64 1 1 (- (1 + 1 / 2 ^ 23)) (1 + 3 / 2 ^ 23) [0] 0"
      by (rule arg_cong [where f = "\<lambda>m. m 1 1 (- (1 + 1 / 2 ^ 23)) (1 + 3 / 2 ^ 23) [0] 0"])
    with three_values_differ(3) show False
      by (simp only: float_only_value double_only_value)
  qed
  from gen ieee useF useFD useD dom card ne1 ne2 ne3 show ?thesis
    by (intro conjI)
qed

theorem muladdmul_three_strategies_witness:
  "length (myr general_bench) = 9
   \<and> FloatConcat_muladdmul binary32 1 1 (- (1 + 1 / 2 ^ 23)) (1 + 3 / 2 ^ 23) [0] 0
       = [- (1 / 2 ^ 21)]
   \<and> FloatDoubleConcat_muladdmul binary64 ieee_casts
        1 1 (- (1 + 1 / 2 ^ 23)) (1 + 3 / 2 ^ 23) [0] 0 = [- (8388609 / 2 ^ 44)]
   \<and> DoubleConcat_muladdmul binary64 1 1 (- (1 + 1 / 2 ^ 23)) (1 + 3 / 2 ^ 23) [0] 0
       = [- (33554435 / 2 ^ 46)]
   \<and> myr (FloatDoubleConcat_performTest binary32 binary64 ieee_casts general_bench)
       = [21, 18, 18, 66, 57, 54, 0, 0, 1]
   \<and> card (dom muladdmul_of) = 3
   \<and> muladdmul_of FloatConcat \<noteq> muladdmul_of FloatDoubleConcat
   \<and> muladdmul_of FloatDoubleConcat \<noteq> muladdmul_of DoubleConcat
   \<and> muladdmul_of FloatConcat \<noteq> muladdmul_of DoubleConcat"
proof -
  have len: "length (myr general_bench) = 9"
    by (simp add: general_bench_def)
  note inst = muladdmul_three_strategies [OF len len,
      of binary32 _ _ _ _ _ _ binary64 ieee_casts]
  have run: "myr (FloatDoubleConcat_performTest binary32 binary64 ieee_casts general_bench)
      = [21, 18, 18, 66, 57, 54, 0, 0, 1]"
    by code_simp
  from inst have "card (dom muladdmul_of) = 3
      \<and> muladdmul_of FloatConcat \<noteq> muladdmul_of FloatDoubleConcat
      \<and> muladdmul_of FloatDoubleConcat \<noteq> muladdmul_of DoubleConcat
      \<and> muladdmul_of FloatConcat \<noteq> muladdmul_of DoubleConcat"
    by blast
  with len run float_only_value float_double_value double_only_value show ?thesis
    by blast
qed

subsection \<open>One formula, three precisions\<close>

text \<open>
  Claim C3. Over exact numbers the three \<open>performTest\<close> bodies compute the same
  function of the inputs: benchmark objects that hold the same arrays \<open>mya\<close> and \<open>myb\<close>
  end with the same nine results in \<open>myr\<close>, whatever \<open>myr\<close> held before, and on one and
  the same object state the three bodies return the same state. This does not depend
  on the numbers being exact: the bodies agree for any arithmetic as soon as \<open>float\<close>
  and \<open>double\<close> share it and the conversions change nothing, so the variants differ in
  precision only, not in the formula.
\<close>

theorem concat_variants_agree:
  assumes "length (myr s) = 9" and "length (myr t) = 9" and "length (myr u) = 9"
    and "mya t = mya s" and "myb t = myb s"
    and "mya u = mya s" and "myb u = myb s"
  shows "myr (FloatConcat_performTest (exact :: rat arith) s)
           = myr (FloatDoubleConcat_performTest exact exact exact_casts t)
       \<and> myr (FloatDoubleConcat_performTest (exact :: rat arith) exact exact_casts t)
           = myr (DoubleConcat_performTest exact u)
       \<and> FloatConcat_performTest (exact :: rat arith) s
           = FloatDoubleConcat_performTest exact exact exact_casts s
       \<and> FloatDoubleConcat_performTest (exact :: rat arith) exact exact_casts s
           = DoubleConcat_performTest exact s
       \<and> FloatConcat_performTest A s = FloatDoubleConcat_performTest A A exact_casts s
       \<and> FloatDoubleConcat_performTest A A exact_casts s = DoubleConcat_performTest A s"
proof -
  have fd: "myr (FloatConcat_performTest (exact :: rat arith) s)
      = myr (FloatDoubleConcat_performTest exact exact exact_casts t)"
    by (simp add: FloatConcat_myr [OF assms(1)] FloatDoubleConcat_myr [OF assms(2)]
        assms(4,5) exact_casts_def)
  have d: "myr (FloatDoubleConcat_performTest (exact :: rat arith) exact exact_casts t)
      = myr (DoubleConcat_performTest exact u)"
    by (simp add: FloatDoubleConcat_myr [OF assms(2)] DoubleConcat_myr [OF assms(3)]
        assms(4-7) exact_casts_def)
  from fd d show ?thesis
    by (simp only: same_formula)
qed

theorem concat_variants_agree_witness:
  "length (myr general_bench) = 9
   \<and> length (myr (general_bench\<lparr>myr := [0, 0, 0, 0, 0, 0, 0, 0, 0]\<rparr>)) = 9
   \<and> length (myr (general_bench\<lparr>myr := [1, 2, 3, 4, 5, 6, 7, 8, 9]\<rparr>)) = 9
   \<and> myr (FloatConcat_performTest exact general_bench)
       = myr (FloatDoubleConcat_performTest exact exact exact_casts
               (general_bench\<lparr>myr := [0, 0, 0, 0, 0, 0, 0, 0, 0]\<rparr>))
   \<and> myr (FloatDoubleConcat_performTest exact exact exact_casts
            (general_bench\<lparr>myr := [0, 0, 0, 0, 0, 0, 0, 0, 0]\<rparr>))
       = myr (DoubleConcat_performTest exact
               (general_bench\<lparr>myr := [1, 2, 3, 4, 5, 6, 7, 8, 9]\<rparr>))
   \<and> FloatConcat_performTest exact general_bench
       = FloatDoubleConcat_performTest exact exact exact_casts general_bench
   \<and> FloatDoubleConcat_performTest exact exact exact_casts general_bench
       = DoubleConcat_performTest exact general_bench"
proof -
  let ?t = "general_bench\<lparr>myr := [0, 0, 0, 0, 0, 0, 0, 0, 0]\<rparr>"
  let ?u = "general_bench\<lparr>myr := [1, 2, 3, 4, 5, 6, 7, 8, 9]\<rparr>"
  have s: "length (myr general_bench) = 9"
    by (simp add: general_bench_def)
  have t: "length (myr ?t) = 9"
    by simp
  have u: "length (myr ?u) = 9"
    by simp
  have ab: "mya ?t = mya general_bench" "myb ?t = myb general_bench"
    "mya ?u = mya general_bench" "myb ?u = myb general_bench"
    by simp_all
  from concat_variants_agree [OF s t u ab, of exact] s t u show ?thesis
    by blast
qed

subsection \<open>The last row of the result\<close>

text \<open>
  Claim C9. Whatever the input arrays hold, also when their third rows are not
  \<open>(0, 0, 1)\<close>, and whatever the arithmetic does, after a call of \<open>performTest\<close> on any of
  the three concatenation benchmarks the last row of \<open>myr\<close> is \<open>(0, 0, 1)\<close>.
\<close>

theorem concat_last_row:
  assumes "length (myr s) = 9"
  shows "myr (FloatConcat_performTest F s) ! 6 = lit0 F
       \<and> myr (FloatConcat_performTest F s) ! 7 = lit0 F
       \<and> myr (FloatConcat_performTest F s) ! 8 = lit1 F
       \<and> myr (FloatDoubleConcat_performTest F D C s) ! 6 = lit0 F
       \<and> myr (FloatDoubleConcat_performTest F D C s) ! 7 = lit0 F
       \<and> myr (FloatDoubleConcat_performTest F D C s) ! 8 = lit1 F
       \<and> myr (DoubleConcat_performTest F s) ! 6 = lit0 F
       \<and> myr (DoubleConcat_performTest F s) ! 7 = lit0 F
       \<and> myr (DoubleConcat_performTest F s) ! 8 = lit1 F"
  by (simp add: FloatConcat_myr [OF assms] FloatDoubleConcat_myr [OF assms]
      DoubleConcat_myr [OF assms])

theorem concat_last_row_witness:
  "length (myr general_bench) = 9
   \<and> \<not> third_row_affine (mya general_bench)
   \<and> \<not> third_row_affine (myb general_bench)
   \<and> myr (FloatConcat_performTest exact general_bench) ! 6 = 0
   \<and> myr (FloatConcat_performTest exact general_bench) ! 7 = 0
   \<and> myr (FloatConcat_performTest exact general_bench) ! 8 = 1
   \<and> myr (FloatDoubleConcat_performTest exact exact exact_casts general_bench) ! 6 = 0
   \<and> myr (FloatDoubleConcat_performTest exact exact exact_casts general_bench) ! 7 = 0
   \<and> myr (FloatDoubleConcat_performTest exact exact exact_casts general_bench) ! 8 = 1
   \<and> myr (DoubleConcat_performTest exact general_bench) ! 6 = 0
   \<and> myr (DoubleConcat_performTest exact general_bench) ! 7 = 0
   \<and> myr (DoubleConcat_performTest exact general_bench) ! 8 = 1"
proof -
  have len: "length (myr general_bench) = 9"
    by (simp add: general_bench_def)
  have rows: "\<not> third_row_affine (mya general_bench) \<and> \<not> third_row_affine (myb general_bench)"
    by (simp add: third_row_affine_def general_bench_def)
  have lits: "lit0 (exact :: rat arith) = 0 \<and> lit1 (exact :: rat arith) = 1"
    by (simp add: exact_def)
  from concat_last_row [OF len, of exact exact exact_casts] len rows lits show ?thesis
    by simp
qed

subsection \<open>The inputs are not written\<close>

text \<open>
  Claim C10. A call of \<open>performTest\<close> on any of the three concatenation benchmarks leaves
  \<open>mya\<close> and \<open>myb\<close> as they were, and the object after the call is the object before it
  with only \<open>myr\<close> replaced: no other member is written.
\<close>

theorem concat_writes_only_myr:
  "mya (FloatConcat_performTest F s) = mya s
   \<and> myb (FloatConcat_performTest F s) = myb s
   \<and> FloatConcat_performTest F s = s\<lparr>myr := myr (FloatConcat_performTest F s)\<rparr>
   \<and> mya (FloatDoubleConcat_performTest F D C s) = mya s
   \<and> myb (FloatDoubleConcat_performTest F D C s) = myb s
   \<and> FloatDoubleConcat_performTest F D C s
       = s\<lparr>myr := myr (FloatDoubleConcat_performTest F D C s)\<rparr>
   \<and> mya (DoubleConcat_performTest F s) = mya s
   \<and> myb (DoubleConcat_performTest F s) = myb s
   \<and> DoubleConcat_performTest F s = s\<lparr>myr := myr (DoubleConcat_performTest F s)\<rparr>"
  by (simp add: FloatConcat_performTest_def FloatDoubleConcat_performTest_def
      DoubleConcat_performTest_def Let_def)


subsection \<open>Shared facts about the 32-bit counter\<close>

lemma sint_add_no_overflow:
  fixes g d :: c_int
  assumes "- 2147483648 \<le> sint g + sint d" and "sint g + sint d \<le> 2147483647"
  shows "sint (g + d) = sint g + sint d"
proof -
  have "sint (g + d) = signed_take_bit 31 (sint g + sint d)"
    by (simp add: sint_word_ariths)
  also have "\<dots> = sint g + sint d"
    using assms by (intro signed_take_bit_int_eq_self) simp_all
  finally show ?thesis .
qed

lemma sint_lower: "- 2147483648 \<le> sint (g :: c_int)"
  using sint_ge [of g] by simp

lemma always_do_counter:
  "gMatrixBench_NonStaticGlobal (always_do pred G) =
     gMatrixBench_NonStaticGlobal G + (if pred then 1 else 0)"
  by (simp add: always_do_def)

lemma always_do_globals:
  "always_do pred G = G\<lparr>gMatrixBench_NonStaticGlobal :=
     gMatrixBench_NonStaticGlobal G + (if pred then 1 else 0)\<rparr>"
  by (simp add: always_do_def)

lemma EqualsMatrixBench_counter:
  assumes "equals L (reset L) (reset L)"
  shows "gMatrixBench_NonStaticGlobal (EqualsMatrixBench_performTest L G) =
     gMatrixBench_NonStaticGlobal G + (if getType L (reset L) \<noteq> 0 then 6 else 3)"
  using assms by (simp add: EqualsMatrixBench_performTest_def Let_def always_do_counter)

subsection \<open>The loop of onDraw\<close>

lemma onDraw_loop_funpow:
  "sint i \<le> 100000 \<Longrightarrow>
   onDraw_loop performTest i s = (performTest ^^ nat (100000 - sint i)) s"
proof (induction performTest i s rule: onDraw_loop.induct)
  case (1 performTest i s)
  show ?case
  proof (cases "i <s N")
    case True
    then have lt: "sint i < 100000"
      by (simp add: word_sless_alt N_def)
    then have nx: "sint (i + 1) = sint i + 1"
      using sint_lower [of i] by (simp add: sint_add_no_overflow)
    have "onDraw_loop performTest i s = onDraw_loop performTest (i + 1) (performTest s)"
      using True by (subst onDraw_loop.simps) simp
    also have "\<dots> = (performTest ^^ nat (100000 - sint (i + 1))) (performTest s)"
      using True lt nx by (intro "1.IH") simp_all
    also have "\<dots> = (performTest ^^ Suc (nat (100000 - sint (i + 1)))) s"
      by (simp only: funpow_Suc_right o_apply)
    also have "Suc (nat (100000 - sint (i + 1))) = nat (100000 - sint i)"
      using lt nx by simp
    finally show ?thesis .
  next
    case False
    then have "sint i = 100000"
      using "1.prems" by (simp add: word_sless_alt N_def)
    with False show ?thesis
      by (subst onDraw_loop.simps) simp
  qed
qed

lemma counted_funpow: "(counted f ^^ k) (n, s) = (n + k, (f ^^ k) s)"
  by (induction k) (simp_all add: counted_def)

text \<open>
  Claim C4. For every \<open>performTest\<close> and every state, one call of \<open>onDraw\<close> returns, and
  what it returns is \<open>performTest\<close> applied \<open>N = 100000\<close> times: a call counter advanced
  by every invocation goes from 0 to 100000. The loop function is total: its
  termination was proved with the measure \<open>N - i\<close> where it is defined.
\<close>

theorem onDraw_calls_performTest_N_times:
  "onDraw performTest s = (performTest ^^ 100000) s
   \<and> fst (onDraw (counted performTest) (0, s)) = 100000
   \<and> sint N = 100000"
proof -
  have z: "sint (0 :: c_int) \<le> 100000"
    by simp
  have n: "nat (100000 - sint (0 :: c_int)) = 100000"
    by simp
  have loop: "onDraw f x = (f ^^ 100000) x" for f :: "'b \<Rightarrow> 'b" and x
    unfolding onDraw_def onDraw_loop_funpow [OF z] n ..
  have "fst (onDraw (counted performTest) (0, s)) = 0 + 100000"
    by (simp only: loop counted_funpow fst_conv)
  then have calls: "fst (onDraw (counted performTest) (0, s)) = 100000"
    by (simp only: add_0)
  have "sint N = 100000"
    by (simp add: N_def)
  with loop [of performTest s] calls show ?thesis
    by (intro conjI)
qed

theorem onDraw_calls_performTest_N_times_witness:
  "onDraw Suc 7 = 100007 \<and> fst (onDraw (counted Suc) (0, 7)) = 100000"
  using onDraw_calls_performTest_N_times [of Suc 7] by simp

subsection \<open>The guard and the global counter\<close>

text \<open>
  Claim C5, as stated, fails where the 32-bit counter overflows: at \<open>INT_MAX\<close> the
  increment of a true guard wraps to \<open>INT_MIN\<close>, and a call of
  \<open>EqualsMatrixBench::performTest\<close> that starts there leaves the counter smaller than it
  was (here with the reference matrix library, whose identity has mask 0).
\<close>

theorem always_do_counterexample:
  "sint (gMatrixBench_NonStaticGlobal
      (always_do True \<lparr>gMatrixBench_NonStaticGlobal = 2147483647\<rparr>)) = - 2147483648
   \<and> sint (gMatrixBench_NonStaticGlobal
      (EqualsMatrixBench_performTest SkMatrix_ref \<lparr>gMatrixBench_NonStaticGlobal = 2147483647\<rparr>))
     = - 2147483646"
  by (simp add: always_do_def EqualsMatrixBench_performTest_def SkMatrix_ref_def
      ref_getType_def Let_def)

text \<open>
  Claim C5, amended. An expansion of \<open>always_do(pred)\<close> leaves the global counter (and
  the globals) unchanged when \<open>pred\<close> is false and adds 1 to it in 32-bit arithmetic when
  \<open>pred\<close> is true, which raises its value by exactly 1 when it is below \<open>INT_MAX\<close>. When
  the identity matrix compares equal to itself, one call of
  \<open>EqualsMatrixBench::performTest\<close> raises the counter by 3, or by 6 if the mask of the
  identity is not zero, hence by at least 3, provided the sum does not exceed \<open>INT_MAX\<close>.
\<close>

theorem always_do_accumulates:
  assumes "sint (gMatrixBench_NonStaticGlobal G) < 2147483647"
    and "equals L (reset L) (reset L)"
    and "sint (gMatrixBench_NonStaticGlobal H) + EqualsMatrixBench_hits L \<le> 2147483647"
  shows "always_do False G = G
       \<and> gMatrixBench_NonStaticGlobal (always_do True G) = gMatrixBench_NonStaticGlobal G + 1
       \<and> sint (gMatrixBench_NonStaticGlobal (always_do True G))
           = sint (gMatrixBench_NonStaticGlobal G) + 1
       \<and> sint (gMatrixBench_NonStaticGlobal (EqualsMatrixBench_performTest L H))
           = sint (gMatrixBench_NonStaticGlobal H) + EqualsMatrixBench_hits L
       \<and> 3 \<le> EqualsMatrixBench_hits L"
proof -
  have unchanged: "always_do False G = G"
    by (simp add: always_do_def)
  have word: "gMatrixBench_NonStaticGlobal (always_do True G)
      = gMatrixBench_NonStaticGlobal G + 1"
    by (simp add: always_do_counter)
  have one: "sint (gMatrixBench_NonStaticGlobal (always_do True G))
      = sint (gMatrixBench_NonStaticGlobal G) + 1"
    using assms(1) sint_lower [of "gMatrixBench_NonStaticGlobal G"]
    by (simp add: word sint_add_no_overflow)
  have call: "sint (gMatrixBench_NonStaticGlobal (EqualsMatrixBench_performTest L H))
      = sint (gMatrixBench_NonStaticGlobal H) + EqualsMatrixBench_hits L"
    using assms(3) sint_lower [of "gMatrixBench_NonStaticGlobal H"]
    by (simp add: EqualsMatrixBench_counter [OF assms(2)] EqualsMatrixBench_hits_def
        sint_add_no_overflow split: if_splits)
  have least: "3 \<le> EqualsMatrixBench_hits L"
    by (simp add: EqualsMatrixBench_hits_def)
  from unchanged word one call least show ?thesis
    by (intro conjI)
qed

theorem always_do_accumulates_witness:
  "sint (gMatrixBench_NonStaticGlobal \<lparr>gMatrixBench_NonStaticGlobal = 41\<rparr>) < 2147483647
   \<and> equals SkMatrix_ref (reset SkMatrix_ref) (reset SkMatrix_ref)
   \<and> sint (gMatrixBench_NonStaticGlobal \<lparr>gMatrixBench_NonStaticGlobal = 2147483644\<rparr>)
       + EqualsMatrixBench_hits SkMatrix_ref \<le> 2147483647
   \<and> always_do False \<lparr>gMatrixBench_NonStaticGlobal = 41\<rparr>
       = \<lparr>gMatrixBench_NonStaticGlobal = 41\<rparr>
   \<and> sint (gMatrixBench_NonStaticGlobal
        (always_do True \<lparr>gMatrixBench_NonStaticGlobal = 41\<rparr>)) = 42
   \<and> sint (gMatrixBench_NonStaticGlobal
        (EqualsMatrixBench_performTest SkMatrix_ref
          \<lparr>gMatrixBench_NonStaticGlobal = 2147483644\<rparr>)) = 2147483647"
proof -
  have small: "sint (gMatrixBench_NonStaticGlobal \<lparr>gMatrixBench_NonStaticGlobal = 41\<rparr>)
      < 2147483647"
    by simp
  have eq: "equals SkMatrix_ref (reset SkMatrix_ref) (reset SkMatrix_ref)"
    by (simp add: SkMatrix_ref_def)
  have hits: "EqualsMatrixBench_hits SkMatrix_ref = 3"
    by (simp add: EqualsMatrixBench_hits_def SkMatrix_ref_def ref_getType_def)
  have room: "sint (gMatrixBench_NonStaticGlobal \<lparr>gMatrixBench_NonStaticGlobal = 2147483644\<rparr>)
      + EqualsMatrixBench_hits SkMatrix_ref \<le> 2147483647"
    by (simp add: hits)
  from always_do_accumulates [OF small eq room] small eq room hits show ?thesis
    by simp
qed

subsection \<open>State that survives a call\<close>

text \<open>
  Claim C6, as stated, fails: \<open>performTest\<close> does modify state that outlives the call.
  With the reference matrix library, a call of \<open>EqualsMatrixBench::performTest\<close> moves
  the global counter from 0 to 3 and the next call, which finds 3, moves it to 6; and a
  call of \<open>FloatConcatMatrixBench::performTest\<close> replaces the contents of the member array
  \<open>myr\<close>.
\<close>

theorem no_persistent_state_counterexample:
  "EqualsMatrixBench_performTest SkMatrix_ref \<lparr>gMatrixBench_NonStaticGlobal = 0\<rparr>
     = \<lparr>gMatrixBench_NonStaticGlobal = 3\<rparr>
   \<and> EqualsMatrixBench_performTest SkMatrix_ref \<lparr>gMatrixBench_NonStaticGlobal = 3\<rparr>
     = \<lparr>gMatrixBench_NonStaticGlobal = 6\<rparr>
   \<and> myr affine_bench = [5, 5, 5, 5, 5, 5, 5, 5, 5]
   \<and> myr (FloatConcat_performTest exact affine_bench) = [27, 30, 36, 78, 87, 102, 0, 0, 1]"
  by (simp add: always_do_def EqualsMatrixBench_performTest_def SkMatrix_ref_def
      ref_getType_def Let_def FloatConcat_exact affine_concat_def affine_bench_def)

text \<open>
  Claim C6, amended. The state a call of \<open>performTest\<close> modifies beyond the call is the
  following and no more. \<open>EqualsMatrixBench::performTest\<close> changes the global counter
  (when the identity matrix compares equal to itself). \<open>ScaleMatrixBench::performTest\<close>
  changes no member. Each concatenation benchmark replaces its member array \<open>myr\<close> and
  nothing else, and a second call leaves the object as the first call left it.
\<close>

theorem performTest_state_effects:
  assumes "equals L (reset L) (reset L)"
    and "length (myr s) = 9"
  shows "EqualsMatrixBench_performTest L G \<noteq> G
       \<and> ScaleMatrixBench_performTest L sc = sc
       \<and> FloatConcat_performTest F s = s\<lparr>myr := myr (FloatConcat_performTest F s)\<rparr>
       \<and> FloatConcat_performTest F (FloatConcat_performTest F s)
           = FloatConcat_performTest F s
       \<and> FloatDoubleConcat_performTest F D C s
           = s\<lparr>myr := myr (FloatDoubleConcat_performTest F D C s)\<rparr>
       \<and> FloatDoubleConcat_performTest F D C (FloatDoubleConcat_performTest F D C s)
           = FloatDoubleConcat_performTest F D C s
       \<and> DoubleConcat_performTest F s = s\<lparr>myr := myr (DoubleConcat_performTest F s)\<rparr>
       \<and> DoubleConcat_performTest F (DoubleConcat_performTest F s)
           = DoubleConcat_performTest F s"
proof -
  have "gMatrixBench_NonStaticGlobal (EqualsMatrixBench_performTest L G)
      \<noteq> gMatrixBench_NonStaticGlobal G"
    by (simp add: EqualsMatrixBench_counter [OF assms(1)])
  then have counter: "EqualsMatrixBench_performTest L G \<noteq> G"
    by auto
  have scale: "ScaleMatrixBench_performTest L sc = sc"
    by (simp add: ScaleMatrixBench_performTest_def)
  have f: "FloatConcat_performTest F (FloatConcat_performTest F s)
      = FloatConcat_performTest F s"
  proof -
    let ?t = "FloatConcat_performTest F s"
    have len: "length (myr ?t) = 9"
      by (simp add: FloatConcat_myr [OF assms(2)])
    have same: "mya ?t = mya s" "myb ?t = myb s"
      by (simp_all add: FloatConcat_performTest_def Let_def)
    have "myr (FloatConcat_performTest F ?t) = myr ?t"
      by (simp only: FloatConcat_myr [OF len] FloatConcat_myr [OF assms(2)] same)
    then show ?thesis
      by (subst FloatConcat_only_myr) simp
  qed
  have fd: "FloatDoubleConcat_performTest F D C (FloatDoubleConcat_performTest F D C s)
      = FloatDoubleConcat_performTest F D C s"
  proof -
    let ?t = "FloatDoubleConcat_performTest F D C s"
    have len: "length (myr ?t) = 9"
      by (simp add: FloatDoubleConcat_myr [OF assms(2)])
    have same: "mya ?t = mya s" "myb ?t = myb s"
      by (simp_all add: FloatDoubleConcat_performTest_def Let_def)
    have "myr (FloatDoubleConcat_performTest F D C ?t) = myr ?t"
      by (simp only: FloatDoubleConcat_myr [OF len] FloatDoubleConcat_myr [OF assms(2)] same)
    then show ?thesis
      by (subst FloatDoubleConcat_only_myr) simp
  qed
  have d: "DoubleConcat_performTest F (DoubleConcat_performTest F s)
      = DoubleConcat_performTest F s"
  proof -
    let ?t = "DoubleConcat_performTest F s"
    have len: "length (myr ?t) = 9"
      by (simp add: DoubleConcat_myr [OF assms(2)])
    have same: "mya ?t = mya s" "myb ?t = myb s"
      by (simp_all add: DoubleConcat_performTest_def Let_def)
    have "myr (DoubleConcat_performTest F ?t) = myr ?t"
      by (simp only: DoubleConcat_myr [OF len] DoubleConcat_myr [OF assms(2)] same)
    then show ?thesis
      by (subst DoubleConcat_only_myr) simp
  qed
  from counter scale FloatConcat_only_myr [of F s] f
    FloatDoubleConcat_only_myr [of F D C s] fd DoubleConcat_only_myr [of F s] d
  show ?thesis
    by (intro conjI)
qed

theorem performTest_state_effects_witness:
  "equals SkMatrix_ref (reset SkMatrix_ref) (reset SkMatrix_ref)
   \<and> length (myr general_bench) = 9
   \<and> EqualsMatrixBench_performTest SkMatrix_ref \<lparr>gMatrixBench_NonStaticGlobal = 0\<rparr>
       \<noteq> \<lparr>gMatrixBench_NonStaticGlobal = 0\<rparr>
   \<and> ScaleMatrixBench_performTest SkMatrix_ref (ScaleMatrixBench_ctor SkMatrix_ref raw_scale)
       = ScaleMatrixBench_ctor SkMatrix_ref raw_scale
   \<and> FloatConcat_performTest exact (FloatConcat_performTest exact general_bench)
       = FloatConcat_performTest exact general_bench
   \<and> myr (FloatConcat_performTest exact general_bench) = [21, 18, 18, 66, 57, 54, 0, 0, 1]"
proof -
  have eq: "equals SkMatrix_ref (reset SkMatrix_ref) (reset SkMatrix_ref)"
    by (simp add: SkMatrix_ref_def)
  have len: "length (myr general_bench) = 9"
    by (simp add: general_bench_def)
  have "affine_concat (mya general_bench) (myb general_bench)
      = [21, 18, 18, 66, 57, 54, 0, 0, (1 :: rat)]"
    by (simp add: affine_concat_def general_bench_def)
  then have r: "myr (FloatConcat_performTest exact general_bench)
      = [21, 18, 18, 66, 57, 54, 0, 0, 1]"
    by (simp only: FloatConcat_exact [OF len])
  from performTest_state_effects [OF eq len,
      of "\<lparr>gMatrixBench_NonStaticGlobal = 0\<rparr>" "ScaleMatrixBench_ctor SkMatrix_ref raw_scale"
         exact exact exact_casts]
    eq len r
  show ?thesis
    by blast
qed

subsection \<open>Registration of the benchmarks\<close>

text \<open>
  Claim C7. Static initialisation adds exactly five factories to the registry, whatever
  it held before. They create one benchmark of each class: the equality benchmark, the
  scaling benchmark and the three concatenation benchmarks, one per precision strategy,
  under five different names.
\<close>

theorem five_benchmarks_registered:
  "static_init registry = [M4, M3, M2, M1, M0] @ registry
   \<and> length (static_init registry) = length registry + 5
   \<and> map (\<lambda>f. f p) [M4, M3, M2, M1, M0] =
       [(DoubleConcat, ''matrix_concat_double''),
        (FloatDoubleConcat, ''matrix_concat_floatdouble''),
        (FloatConcat, ''matrix_concat_floatfloat''),
        (Scale, ''matrix_scale''),
        (Equals, ''matrix_equals'')]
   \<and> distinct (map (\<lambda>f. fst (f p)) [M4, M3, M2, M1, M0])
   \<and> set (map (\<lambda>f. fst (f p)) [M4, M3, M2, M1, M0]) = UNIV"
proof -
  have all: "(UNIV :: bench_class set) = {DoubleConcat, FloatDoubleConcat, FloatConcat, Scale, Equals}"
    using bench_class.exhaust by blast
  have init: "static_init registry = [M4, M3, M2, M1, M0] @ registry"
    by (simp add: static_init_def BenchRegistry_def)
  have objs: "map (\<lambda>f. f p) [M4, M3, M2, M1, M0] =
       [(DoubleConcat, ''matrix_concat_double''),
        (FloatDoubleConcat, ''matrix_concat_floatdouble''),
        (FloatConcat, ''matrix_concat_floatfloat''),
        (Scale, ''matrix_scale''),
        (Equals, ''matrix_equals'')]"
    by (simp add: M0_def M1_def M2_def M3_def M4_def new_bench_def onGetName_def
        MatrixBench_ctor_def)
  have classes: "map (\<lambda>f. fst (f p)) [M4, M3, M2, M1, M0]
      = [DoubleConcat, FloatDoubleConcat, FloatConcat, Scale, Equals]"
    by (simp add: M0_def M1_def M2_def M3_def M4_def new_bench_def)
  have dist: "distinct (map (\<lambda>f. fst (f p)) [M4, M3, M2, M1, M0])"
    by (simp only: classes) simp
  have cover: "set (map (\<lambda>f. fst (f p)) [M4, M3, M2, M1, M0]) = UNIV"
    by (simp only: classes all) simp
  have len: "length (static_init registry) = length registry + 5"
    by (simp add: init)
  from init len objs dist cover show ?thesis
    by (intro conjI)
qed

subsection \<open>The constructor of ScaleMatrixBench\<close>

text \<open>
  Claim C8. In the constructor of \<open>ScaleMatrixBench\<close> the calls \<open>fM1.setScale(fSX, fSY)\<close>
  and \<open>fM2.setTranslate(fSX, fSY)\<close> run before the assignment \<open>fSX = fSY = 1.5f\<close>. After
  each of the first three statements \<open>fSX\<close> and \<open>fSY\<close> still hold what the object's
  storage held before the constructor ran, and it is these values that both calls
  receive; once the fourth statement has run, and so in the constructed object, \<open>fSX\<close>
  and \<open>fSY\<close> are 1.5 while \<open>fM1\<close> and \<open>fM2\<close> keep the matrices built from the earlier
  values.
\<close>

theorem ScaleMatrixBench_ctor_reads_before_assignment:
  "fSX (ScaleMatrixBench_ctor_upto 1 L raw) = fSX raw
   \<and> fSY (ScaleMatrixBench_ctor_upto 1 L raw) = fSY raw
   \<and> fSX (ScaleMatrixBench_ctor_upto 2 L raw) = fSX raw
   \<and> fSY (ScaleMatrixBench_ctor_upto 2 L raw) = fSY raw
   \<and> fSX (ScaleMatrixBench_ctor_upto 3 L raw) = fSX raw
   \<and> fSY (ScaleMatrixBench_ctor_upto 3 L raw) = fSY raw
   \<and> fM1 (ScaleMatrixBench_ctor_upto 3 L raw) = setScale L (fSX raw) (fSY raw)
   \<and> fM2 (ScaleMatrixBench_ctor_upto 3 L raw) = setTranslate L (fSX raw) (fSY raw)
   \<and> ScaleMatrixBench_ctor L raw = ScaleMatrixBench_ctor_upto 4 L raw
   \<and> fSX (ScaleMatrixBench_ctor L raw) = SkFloatToScalar L (3 / 2)
   \<and> fSY (ScaleMatrixBench_ctor L raw) = SkFloatToScalar L (3 / 2)
   \<and> fM1 (ScaleMatrixBench_ctor L raw) = setScale L (fSX raw) (fSY raw)
   \<and> fM2 (ScaleMatrixBench_ctor L raw) = setTranslate L (fSX raw) (fSY raw)"
  by (simp add: ScaleMatrixBench_ctor_def ScaleMatrixBench_ctor_upto_def
      ScaleMatrixBench_ctor_body_def run_def MatrixBench_ctor_def Let_def)


end
